theory Spec2Isabelle
  imports Complex_Main "HOL-Library.Sublist"
begin

section \<open>Exceptions (app/exceptions.py)\<close>

text \<open>
  The exception classes that app/auth.py raises. Each constructor is one class as it is
  instantiated there: \<open>AuthenticationError detail\<close> and \<open>AuthorizationError detail\<close> are
  the two base classes called with a detail string and no code; the others are the
  parameterless (or one-parameter) subclasses of exceptions.py.
\<close>

datatype api_error =
    AuthenticationError string
  | AuthorizationError string
  | InvalidTokenError
  | MissingTokenError
  | UserNotFoundError
  | CompanyNotFoundError
  | ProjectAccessDeniedError string

text \<open>\<open>isinstance(e, AuthenticationError)\<close> and \<open>isinstance(e, AuthorizationError)\<close>,
  following the class hierarchy of exceptions.py.\<close>

fun is_AuthenticationError :: "api_error \<Rightarrow> bool" where
  "is_AuthenticationError (AuthenticationError d) = True"
| "is_AuthenticationError InvalidTokenError = True"
| "is_AuthenticationError MissingTokenError = True"
| "is_AuthenticationError UserNotFoundError = True"
| "is_AuthenticationError (AuthorizationError d) = False"
| "is_AuthenticationError CompanyNotFoundError = False"
| "is_AuthenticationError (ProjectAccessDeniedError p) = False"

fun is_AuthorizationError :: "api_error \<Rightarrow> bool" where
  "is_AuthorizationError (AuthorizationError d) = True"
| "is_AuthorizationError CompanyNotFoundError = True"
| "is_AuthorizationError (ProjectAccessDeniedError p) = True"
| "is_AuthorizationError (AuthenticationError d) = False"
| "is_AuthorizationError InvalidTokenError = False"
| "is_AuthorizationError MissingTokenError = False"
| "is_AuthorizationError UserNotFoundError = False"

text \<open>The HTTP status each constructor passes to \<open>BigQueryAPIException.__init__\<close>:
  401 in \<open>AuthenticationError.__init__\<close>, 403 in \<open>AuthorizationError.__init__\<close>.\<close>

fun status_code :: "api_error \<Rightarrow> nat" where
  "status_code (AuthenticationError d) = 401"
| "status_code InvalidTokenError = 401"
| "status_code MissingTokenError = 401"
| "status_code UserNotFoundError = 401"
| "status_code (AuthorizationError d) = 403"
| "status_code CompanyNotFoundError = 403"
| "status_code (ProjectAccessDeniedError p) = 403"

text \<open>The \<open>code\<close> attribute: \<open>code or "AUTH_ERROR"\<close>, \<open>code or "AUTHORIZATION_ERROR"\<close>
  for the base classes, the literal of the subclass otherwise.\<close>

fun code :: "api_error \<Rightarrow> string" where
  "code (AuthenticationError d) = ''AUTH_ERROR''"
| "code (AuthorizationError d) = ''AUTHORIZATION_ERROR''"
| "code InvalidTokenError = ''INVALID_TOKEN''"
| "code MissingTokenError = ''MISSING_TOKEN''"
| "code UserNotFoundError = ''USER_NOT_FOUND''"
| "code CompanyNotFoundError = ''COMPANY_NOT_FOUND''"
| "code (ProjectAccessDeniedError p) = ''PROJECT_ACCESS_DENIED''"

fun detail :: "api_error \<Rightarrow> string" where
  "detail (AuthenticationError d) = d"
| "detail (AuthorizationError d) = d"
| "detail InvalidTokenError = ''Invalid or expired authentication token''"
| "detail MissingTokenError = ''Authentication token not provided''"
| "detail UserNotFoundError = ''User not found in database''"
| "detail CompanyNotFoundError = ''Company not found or access denied''"
| "detail (ProjectAccessDeniedError p) = ''Access denied to project: '' @ p"

text \<open>
  Anything raised inside app/auth.py: one of the API exceptions above, or any other Python
  exception (a library error, \<open>KeyError\<close>, \<open>AttributeError\<close>, \<open>TypeError\<close>), of which only
  \<open>str(e)\<close> is ever used.
\<close>

datatype exn = Api api_error | Py string


section \<open>Values read from the document store\<close>

text \<open>
  Field values of a Firestore document as Python sees them: \<open>None\<close>, booleans, integers,
  strings, arrays and maps. (Doubles, timestamps, bytes, geo points and document references
  are outside this model.) A document is a Python dict, here an association list read with
  \<open>map_of\<close>.
\<close>

datatype fsval =
    FNull
  | FBool bool
  | FInt int
  | FStr string
  | FList "fsval list"
  | FMap "(string \<times> fsval) list"

type_synonym pydict = "(string \<times> fsval) list"

text \<open>Python truthiness, as used by \<open>not x\<close> and \<open>x or y\<close>.\<close>

fun truthy :: "fsval \<Rightarrow> bool" where
  "truthy FNull = False"
| "truthy (FBool b) = b"
| "truthy (FInt i) = (i \<noteq> 0)"
| "truthy (FStr s) = (s \<noteq> [])"
| "truthy (FList xs) = (xs \<noteq> [])"
| "truthy (FMap m) = (m \<noteq> [])"

text \<open>\<open>d.get(k)\<close> and \<open>d.get(k, default)\<close>.\<close>

definition dict_get :: "pydict \<Rightarrow> string \<Rightarrow> fsval" where
  "dict_get d k = (case map_of d k of None \<Rightarrow> FNull | Some v \<Rightarrow> v)"

definition dict_get_default :: "pydict \<Rightarrow> string \<Rightarrow> fsval \<Rightarrow> fsval" where
  "dict_get_default d k dflt = (case map_of d k of None \<Rightarrow> dflt | Some v \<Rightarrow> v)"

text \<open>\<open>type(v).__name__\<close>, as it appears in the message of an \<open>AttributeError\<close>.\<close>

fun py_type_name :: "fsval \<Rightarrow> string" where
  "py_type_name FNull = ''NoneType''"
| "py_type_name (FBool b) = ''bool''"
| "py_type_name (FInt i) = ''int''"
| "py_type_name (FStr s) = ''str''"
| "py_type_name (FList xs) = ''list''"
| "py_type_name (FMap m) = ''dict''"


section \<open>Settings (app/config.py)\<close>

text \<open>The fields of \<open>Settings\<close> that identity resolution and its cache could read.\<close>

record Settings =
  gcp_project_id :: string
  firebase_project_id :: string
  accessible_projects :: "string list"
  super_admin_domains :: "string list"
  cache_ttl :: int


section \<open>UserInfo (app/auth.py)\<close>

record UserInfo =
  uid :: string
  email :: "string option"
  email_verified :: fsval
  company_id :: fsval
  gcp_project_id :: fsval
  company_name :: fsval
  is_super_admin :: bool
  accessible_projects :: "fsval list"
  permissions :: fsval
  client_metadata :: pydict

text \<open>
  \<open>UserInfo.__init__\<close>. The three optional arguments default to \<open>None\<close>; the body replaces
  a falsy \<open>accessible_projects\<close> by \<open>[gcp_project_id]\<close>, a falsy \<open>permissions\<close> by
  \<open>["read"]\<close> and a falsy \<open>client_metadata\<close> by \<open>{}\<close>.
\<close>

definition UserInfo_init ::
  "string \<Rightarrow> string option \<Rightarrow> fsval \<Rightarrow> fsval \<Rightarrow> fsval \<Rightarrow> fsval \<Rightarrow> bool \<Rightarrow>
   fsval list option \<Rightarrow> fsval option \<Rightarrow> pydict option \<Rightarrow> UserInfo" where
  "UserInfo_init uid' email' email_verified' company_id' gcp_project_id' company_name'
     is_super_admin' accessible_projects' permissions' client_metadata' =
   \<lparr> uid = uid',
     email = email',
     email_verified = email_verified',
     company_id = company_id',
     gcp_project_id = gcp_project_id',
     company_name = company_name',
     is_super_admin = is_super_admin',
     accessible_projects =
       (case accessible_projects' of
          None \<Rightarrow> [gcp_project_id']
        | Some ps \<Rightarrow> if ps \<noteq> [] then ps else [gcp_project_id']),
     permissions =
       (case permissions' of
          None \<Rightarrow> FList [FStr ''read'']
        | Some p \<Rightarrow> if truthy p then p else FList [FStr ''read'']),
     client_metadata =
       (case client_metadata' of
          None \<Rightarrow> []
        | Some m \<Rightarrow> if m \<noteq> [] then m else []) \<rparr>"

text \<open>\<open>UserInfo.can_access_project\<close>: the argument is a Python \<open>str\<close>.\<close>

definition can_access_project :: "UserInfo \<Rightarrow> string \<Rightarrow> bool" where
  "can_access_project u project_id =
     (is_super_admin u \<or> FStr project_id \<in> set (accessible_projects u))"


section \<open>Route guards (app/auth.py)\<close>

text \<open>
  \<open>request.state\<close> as far as the guards read it: the \<open>user\<close> attribute, present once the
  middleware has attached an identity.
\<close>

definition get_current_user :: "UserInfo option \<Rightarrow> api_error + UserInfo" where
  "get_current_user state_user =
     (case state_user of
        None \<Rightarrow> Inl (AuthenticationError ''User not authenticated'')
      | Some u \<Rightarrow> Inr u)"

definition require_project_access :: "string \<Rightarrow> UserInfo option \<Rightarrow> api_error + UserInfo" where
  "require_project_access project_id state_user =
     (case get_current_user state_user of
        Inl e \<Rightarrow> Inl e
      | Inr u \<Rightarrow>
          if \<not> can_access_project u project_id
          then Inl (ProjectAccessDeniedError project_id)
          else Inr u)"


section \<open>The identity cache (cachetools.TTLCache, as used by app/auth.py)\<close>

text \<open>
  \<open>TTLCache\<close> is a library class; this is its documented behaviour for the three
  operations auth.py uses (\<open>key in cache\<close>, \<open>cache[key]\<close>, \<open>cache[key] = value\<close>) with
  the default \<open>getsizeof\<close> (every item has size 1). \<open>links\<close> is the ordered dictionary of
  the cache, least recently used first; each entry carries its value and the time at which
  it expires. Every operation reads the timer once; the reading is the argument \<open>t\<close>.
\<close>

record 'v TTLCache =
  maxsize :: nat
  ttl :: real
  links :: "(string \<times> 'v \<times> real) list"

definition TTLCache_new :: "nat \<Rightarrow> real \<Rightarrow> 'v TTLCache" where
  "TTLCache_new m d = \<lparr> maxsize = m, ttl = d, links = [] \<rparr>"

text \<open>\<open>repr\<close> of a key without quotes or escapes: the text of a \<open>KeyError\<close>.\<close>

definition py_repr :: "string \<Rightarrow> string" where
  "py_repr k = [CHR 0x27] @ k @ [CHR 0x27]"

text \<open>\<open>key in cache\<close>: the key is present and its entry has not expired; no reordering.\<close>

definition contains :: "'v TTLCache \<Rightarrow> real \<Rightarrow> string \<Rightarrow> bool" where
  "contains c t k =
     (case map_of (links c) k of
        None \<Rightarrow> False
      | Some (v, expires) \<Rightarrow> t < expires)"

text \<open>\<open>cache[key]\<close>: the entry moves to the most-recently-used end; an absent or expired
  key raises \<open>KeyError\<close>.\<close>

definition getitem :: "'v TTLCache \<Rightarrow> real \<Rightarrow> string \<Rightarrow> (exn + 'v) \<times> 'v TTLCache" where
  "getitem c t k =
     (case map_of (links c) k of
        None \<Rightarrow> (Inl (Py (py_repr k)), c)
      | Some (v, expires) \<Rightarrow>
          (let c' = c\<lparr>links := filter (\<lambda>l. fst l \<noteq> k) (links c) @ [(k, v, expires)]\<rparr>
           in if t < expires then (Inr v, c') else (Inl (Py (py_repr k)), c')))"

text \<open>
  \<open>cache[key] = value\<close>: expired entries are removed first; a value larger than the cache
  raises \<open>ValueError\<close>; while the cache is full and the key is new, the least recently used
  entry is dropped; the entry is stored at the most-recently-used end and expires \<open>ttl\<close>
  after the timer reading.
\<close>

definition setitem :: "'v TTLCache \<Rightarrow> real \<Rightarrow> string \<Rightarrow> 'v \<Rightarrow> exn option \<times> 'v TTLCache" where
  "setitem c t k v =
     (let live = filter (\<lambda>l. t < snd (snd l)) (links c) in
      if 1 > maxsize c then (Some (Py ''value too large''), c\<lparr>links := live\<rparr>)
      else
        (let kept = (if k \<in> set (map fst live) then live
                     else drop (length live + 1 - maxsize c) live)
         in (None, c\<lparr>links := filter (\<lambda>l. fst l \<noteq> k) kept @ [(k, v, t + ttl c)]\<rparr>)))"


section \<open>Module state and external services (app/auth.py)\<close>

text \<open>
  The mutable module state: the global \<open>user_cache\<close>. \<open>directory_reads\<close> is a ghost
  field: the list of document reads (\<open>collection\<close>, \<open>document id\<close>) issued so far against
  the document store, oldest first.
\<close>

record state =
  user_cache :: "UserInfo TTLCache"
  directory_reads :: "(string \<times> fsval) list"

text \<open>
  Module initialisation: \<open>settings = get_settings()\<close>, then
  \<open>user_cache = TTLCache(maxsize=1000, ttl=300)\<close>.
\<close>

definition module_init :: "Settings \<Rightarrow> state" where
  "module_init settings =
     \<lparr> user_cache = TTLCache_new 1000 300, directory_reads = [] \<rparr>"

text \<open>
  What \<open>firebase_auth.verify_id_token(token, check_revoked=True)\<close> can do: return the
  decoded token, raise one of the three exceptions \<open>validate_firebase_token\<close> names, or
  raise anything else (with its \<open>str\<close>). The decoded token always has a \<open>uid\<close>; the other
  keys are read with \<open>.get\<close>.
\<close>

record decoded_token =
  token_uid :: string
  token_email :: "string option"
  token_email_verified :: "bool option"
  token_exp :: "int option"
  token_iat :: "int option"

datatype verify_result =
    Decoded decoded_token
  | RaisesInvalidIdTokenError
  | RaisesExpiredIdTokenError
  | RaisesRevokedIdTokenError
  | RaisesOther string

text \<open>
  What \<open>db.collection(c).document(id).get()\<close> can do: return a snapshot, which does not
  exist (\<open>Snapshot None\<close>) or holds the document's dict, or raise (with its \<open>str\<close>).
\<close>

datatype fetch_result = Snapshot "pydict option" | FetchRaises string

record world =
  verify_id_token :: "string \<Rightarrow> verify_result"
  document_get :: "string \<Rightarrow> fsval \<Rightarrow> fetch_result"

text \<open>The dict \<open>validate_firebase_token\<close> returns.\<close>

record firebase_user =
  fb_uid :: string
  fb_email :: "string option"
  fb_email_verified :: bool
  fb_exp :: "int option"
  fb_iat :: "int option"

definition validate_firebase_token :: "world \<Rightarrow> string \<Rightarrow> api_error + firebase_user" where
  "validate_firebase_token w token =
     (case verify_id_token w token of
        Decoded d \<Rightarrow>
          Inr \<lparr> fb_uid = token_uid d,
                fb_email = token_email d,
                fb_email_verified =
                  (case token_email_verified d of None \<Rightarrow> False | Some b \<Rightarrow> b),
                fb_exp = token_exp d,
                fb_iat = token_iat d \<rparr>
      | RaisesInvalidIdTokenError \<Rightarrow> Inl InvalidTokenError
      | RaisesExpiredIdTokenError \<Rightarrow> Inl InvalidTokenError
      | RaisesRevokedIdTokenError \<Rightarrow> Inl InvalidTokenError
      | RaisesOther msg \<Rightarrow> Inl (AuthenticationError (''Token validation failed: '' @ msg)))"


section \<open>Identity resolution: get_user_info (app/auth.py)\<close>

text \<open>\<open>s.split(c)\<close> for a one-character separator.\<close>

fun py_split :: "char \<Rightarrow> string \<Rightarrow> string list" where
  "py_split c [] = [[]]"
| "py_split c (x # xs) =
     (if x = c then [] # py_split c xs
      else (case py_split c xs of
              [] \<Rightarrow> [[x]]
            | w # ws \<Rightarrow> (x # w) # ws))"

text \<open>\<open>email.split("@")[-1] if "@" in email else ""\<close>.\<close>

definition email_domain :: "string \<Rightarrow> string" where
  "email_domain e = (if CHR ''@'' \<in> set e then last (py_split CHR ''@'' e) else [])"

text \<open>The local \<open>is_super_admin\<close> of \<open>get_user_info\<close>: false for \<open>None\<close> and for the
  empty string, otherwise membership of the domain in \<open>settings.super_admin_domains\<close>.\<close>

definition super_admin_check :: "Settings \<Rightarrow> string option \<Rightarrow> bool" where
  "super_admin_check settings email' =
     (case email' of
        None \<Rightarrow> False
      | Some e \<Rightarrow>
          if e = [] then False
          else email_domain e \<in> set (super_admin_domains settings))"

text \<open>The identity built for a super admin.\<close>

definition super_admin_user :: "Settings \<Rightarrow> string \<Rightarrow> string option \<Rightarrow> UserInfo" where
  "super_admin_user settings uid' email' =
     UserInfo_init uid' email' (FBool True) (FStr ''super-admin'')
       (FStr (Settings.gcp_project_id settings)) (FStr ''Be-Luma Admin'') True
       (Some (if Settings.accessible_projects settings \<noteq> []
              then map FStr (Settings.accessible_projects settings)
              else [FStr (Settings.gcp_project_id settings)]))
       (Some (FList [FStr ''read'', FStr ''write'', FStr ''admin'']))
       None"

text \<open>\<open>client_data.get("onboardingData", {}).get("companyName", "Unknown Company")\<close>:
  a value stored under \<open>onboardingData\<close> that is not a map has no \<open>get\<close>.\<close>

definition company_name_of :: "pydict \<Rightarrow> exn + fsval" where
  "company_name_of client_data =
     (case dict_get_default client_data ''onboardingData'' (FMap []) of
        FMap m \<Rightarrow> Inr (dict_get_default m ''companyName'' (FStr ''Unknown Company''))
      | v \<Rightarrow> Inl (Py ([CHR 0x27] @ py_type_name v @ [CHR 0x27]
                        @ '' object has no attribute '' @ [CHR 0x27] @ ''get'' @ [CHR 0x27])))"

definition record_read :: "state \<Rightarrow> string \<Rightarrow> fsval \<Rightarrow> state" where
  "record_read st collection doc_id =
     st\<lparr>directory_reads := directory_reads st @ [(collection, doc_id)]\<rparr>"

text \<open>The \<open>else\<close> branch of \<open>get_user_info\<close>: the two document reads and the checks
  between them, up to the construction of the identity.\<close>

definition directory_lookup ::
  "world \<Rightarrow> state \<Rightarrow> string \<Rightarrow> string option \<Rightarrow> (exn + UserInfo) \<times> state" where
  "directory_lookup w st uid' email' =
     (let st1 = record_read st ''users'' (FStr uid') in
      case document_get w ''users'' (FStr uid') of
        FetchRaises msg \<Rightarrow> (Inl (Py msg), st1)
      | Snapshot None \<Rightarrow> (Inl (Api UserNotFoundError), st1)
      | Snapshot (Some user_data) \<Rightarrow>
          (let company_id' = dict_get user_data ''company_id'' in
           if \<not> truthy company_id'
           then (Inl (Api (AuthorizationError ''User not associated with any company'')), st1)
           else
             (let st2 = record_read st1 ''clients'' company_id' in
              case document_get w ''clients'' company_id' of
                FetchRaises msg \<Rightarrow> (Inl (Py msg), st2)
              | Snapshot None \<Rightarrow> (Inl (Api CompanyNotFoundError), st2)
              | Snapshot (Some client_data) \<Rightarrow>
                  (let gcp_project_id' = dict_get client_data ''gcpProjectId'' in
                   if \<not> truthy gcp_project_id'
                   then (Inl (Api (AuthorizationError
                            ''Company does not have an associated GCP project'')), st2)
                   else
                     (case company_name_of client_data of
                        Inl e \<Rightarrow> (Inl e, st2)
                      | Inr company_name' \<Rightarrow>
                          (Inr (UserInfo_init uid' email'
                                  (dict_get_default user_data ''email_verified'' (FBool False))
                                  company_id' gcp_project_id' company_name' False
                                  (Some [gcp_project_id'])
                                  (Some (dict_get_default user_data ''permissions''
                                           (FList [FStr ''read''])))
                                  (Some [(''status'', dict_get client_data ''status''),
                                         (''created_at'', dict_get client_data ''createdAt''),
                                         (''bigquery_dataset_id'',
                                            dict_get client_data ''bigQueryDatasetId'')])),
                           st2))))))"

text \<open>\<open>str(e)\<close> of an API exception (\<open>HTTPException.__str__\<close>: status, colon, detail).\<close>

definition api_error_str :: "api_error \<Rightarrow> string" where
  "api_error_str e =
     (if status_code e = 401 then ''401'' else ''403'') @ '': '' @ detail e"

text \<open>
  The two \<open>except\<close> clauses of \<open>get_user_info\<close>: \<open>UserNotFoundError\<close>,
  \<open>CompanyNotFoundError\<close> and every \<open>AuthorizationError\<close> are re-raised; anything else
  becomes an \<open>AuthenticationError\<close> that quotes \<open>str(e)\<close>.
\<close>

definition get_user_info_except :: "exn \<Rightarrow> exn" where
  "get_user_info_except e =
     (case e of
        Api a \<Rightarrow>
          if a = UserNotFoundError \<or> a = CompanyNotFoundError \<or> is_AuthorizationError a
          then Api a
          else Api (AuthenticationError (''Failed to get user information: '' @ api_error_str a))
      | Py msg \<Rightarrow> Api (AuthenticationError (''Failed to get user information: '' @ msg)))"

text \<open>
  \<open>get_user_info(uid, email)\<close>. \<open>t1\<close> is the timer reading of the membership test
  \<open>cache_key in user_cache\<close>, \<open>t2\<close> the reading of the cache access that follows it: the
  read \<open>user_cache[cache_key]\<close> on a hit, the store \<open>user_cache[cache_key] = user_info\<close>
  on a miss. The cache read sits before the \<open>try\<close>, so its \<open>KeyError\<close> is not converted.
\<close>

definition get_user_info ::
  "Settings \<Rightarrow> world \<Rightarrow> real \<Rightarrow> real \<Rightarrow> state \<Rightarrow> string \<Rightarrow> string option
     \<Rightarrow> (exn + UserInfo) \<times> state" where
  "get_user_info settings w t1 t2 st uid' email' =
     (let cache_key = ''user_'' @ uid' in
      if contains (user_cache st) t1 cache_key
      then (case getitem (user_cache st) t2 cache_key of
              (r, c') \<Rightarrow> (r, st\<lparr>user_cache := c'\<rparr>))
      else
        (case (if super_admin_check settings email'
               then (Inr (super_admin_user settings uid' email'), st)
               else directory_lookup w st uid' email') of
           (Inl e, st') \<Rightarrow> (Inl (get_user_info_except e), st')
         | (Inr user_info, st') \<Rightarrow>
             (case setitem (user_cache st') t2 cache_key user_info of
                (Some e, c') \<Rightarrow> (Inl (get_user_info_except e), st'\<lparr>user_cache := c'\<rparr>)
              | (None, c') \<Rightarrow> (Inr user_info, st'\<lparr>user_cache := c'\<rparr>))))"


section \<open>The middleware: AuthMiddleware.dispatch (app/auth.py)\<close>

record request =
  path :: string
  headers :: "(string \<times> string) list"

definition public_paths :: "string list" where
  "public_paths =
     [''/health'', ''/health/'', ''/health/live'', ''/health/ready'',
      ''/metrics'', ''/'', ''/docs'', ''/redoc'', ''/openapi.json'']"

text \<open>\<open>any(request.url.path.startswith(path) for path in self.public_paths)\<close>.\<close>

definition is_public_path :: "string \<Rightarrow> bool" where
  "is_public_path p = list_ex (\<lambda>pub. prefix pub p) public_paths"

text \<open>
  The outcome of \<open>dispatch\<close>: either \<open>call_next(request)\<close> ran, with the identity attached
  to \<open>request.state.user\<close> (or none attached), or an exception left the middleware before
  \<open>call_next\<close> was reached.
\<close>

datatype outcome = Forwarded "UserInfo option" | Rejected api_error

text \<open>The two \<open>except\<close> clauses of \<open>dispatch\<close>.\<close>

definition dispatch_except :: "exn \<Rightarrow> api_error" where
  "dispatch_except e =
     (case e of
        Api a \<Rightarrow>
          if is_AuthenticationError a \<or> is_AuthorizationError a then a
          else AuthenticationError ''Authentication service unavailable''
      | Py msg \<Rightarrow> AuthenticationError ''Authentication service unavailable'')"

text \<open>
  \<open>dispatch(request, call_next)\<close>. \<open>now\<close> is \<open>int(time.time())\<close>; \<open>t1\<close> and \<open>t2\<close> are the
  timer readings of the cache, as in \<open>get_user_info\<close>. A missing \<open>exp\<close> makes the
  comparison with \<open>now\<close> raise \<open>TypeError\<close>.
\<close>

definition dispatch ::
  "Settings \<Rightarrow> world \<Rightarrow> int \<Rightarrow> real \<Rightarrow> real \<Rightarrow> state \<Rightarrow> request \<Rightarrow> outcome \<times> state" where
  "dispatch settings w now t1 t2 st req =
     (if is_public_path (path req) then (Forwarded None, st)
      else
        (case map_of (headers req) ''authorization'' of
           None \<Rightarrow> (Rejected (dispatch_except (Api MissingTokenError)), st)
         | Some auth_header \<Rightarrow>
             if auth_header = [] \<or> \<not> prefix ''Bearer '' auth_header
             then (Rejected (dispatch_except (Api MissingTokenError)), st)
             else
               (let token = drop 7 auth_header in
                if token = [] then (Rejected (dispatch_except (Api MissingTokenError)), st)
                else
                  (case validate_firebase_token w token of
                     Inl e \<Rightarrow> (Rejected (dispatch_except (Api e)), st)
                   | Inr fbu \<Rightarrow>
                       (case fb_exp fbu of
                          None \<Rightarrow>
                            (Rejected (dispatch_except
                               (Py (py_repr ''<='' @ '' not supported between instances of ''
                                     @ py_repr ''NoneType'' @ '' and '' @ py_repr ''int''))), st)
                        | Some exp' \<Rightarrow>
                            if exp' \<le> now
                            then (Rejected (dispatch_except (Api InvalidTokenError)), st)
                            else
                              (case get_user_info settings w t1 t2 st (fb_uid fbu) (fb_email fbu) of
                                 (Inl e, st') \<Rightarrow> (Rejected (dispatch_except e), st')
                               | (Inr user_info, st') \<Rightarrow> (Forwarded (Some user_info), st')))))))"


section \<open>Concrete configurations, services and requests\<close>

definition example_settings :: Settings where
  "example_settings =
     \<lparr> Settings.gcp_project_id = ''gama-454419'',
       firebase_project_id = ''be-luma-infra'',
       Settings.accessible_projects = [''proj-a'', ''proj-b''],
       super_admin_domains = [''admin-domain.com''],
       cache_ttl = 300 \<rparr>"


definition blank_domain_settings :: Settings where
  "blank_domain_settings = example_settings\<lparr>super_admin_domains := ['''']\<rparr>"

definition example_verifier :: "string \<Rightarrow> verify_result" where
  "example_verifier token =
     (if token = ''tok-u1''
      then Decoded \<lparr> token_uid = ''u1'', token_email = Some ''a@tenant.co'',
                     token_email_verified = Some True, token_exp = Some 2000,
                     token_iat = Some 1000 \<rparr>
      else RaisesInvalidIdTokenError)"

definition example_documents :: "string \<Rightarrow> fsval \<Rightarrow> fetch_result" where
  "example_documents collection doc_id =
     (if collection = ''users'' \<and> doc_id = FStr ''u1''
      then Snapshot (Some [(''company_id'', FStr ''t1'')])
      else if collection = ''clients'' \<and> doc_id = FStr ''t1''
      then Snapshot (Some [(''gcpProjectId'', FStr ''proj-42'')])
      else Snapshot None)"

definition example_world :: world where
  "example_world = \<lparr> verify_id_token = example_verifier, document_get = example_documents \<rparr>"

definition outage_world :: world where
  "outage_world =
     \<lparr> verify_id_token = (\<lambda>token. RaisesOther ''connection reset''),
       document_get = (\<lambda>collection doc_id. FetchRaises ''deadline exceeded'') \<rparr>"

definition tenant_user_u1 :: UserInfo where
  "tenant_user_u1 =
     \<lparr> uid = ''u1'', email = Some ''a@tenant.co'', email_verified = FBool False,
       company_id = FStr ''t1'', gcp_project_id = FStr ''proj-42'',
       company_name = FStr ''Unknown Company'', is_super_admin = False,
       accessible_projects = [FStr ''proj-42''], permissions = FList [FStr ''read''],
       client_metadata = [(''status'', FNull), (''created_at'', FNull),
                          (''bigquery_dataset_id'', FNull)] \<rparr>"

definition ladder_documents :: "string \<Rightarrow> fsval \<Rightarrow> fetch_result" where
  "ladder_documents collection doc_id =
     (if collection = ''users'' \<and> doc_id = FStr ''u3'' then Snapshot (Some [])
      else if collection = ''users'' \<and> doc_id = FStr ''u4''
      then Snapshot (Some [(''company_id'', FStr ''t4'')])
      else if collection = ''users'' \<and> doc_id = FStr ''u5''
      then Snapshot (Some [(''company_id'', FStr ''t5'')])
      else if collection = ''clients'' \<and> doc_id = FStr ''t5''
      then Snapshot (Some [(''status'', FStr ''active'')])
      else Snapshot None)"

definition ladder_world :: world where
  "ladder_world = \<lparr> verify_id_token = example_verifier, document_get = ladder_documents \<rparr>"

definition null_onboarding_documents :: "string \<Rightarrow> fsval \<Rightarrow> fetch_result" where
  "null_onboarding_documents collection doc_id =
     (if collection = ''users'' \<and> doc_id = FStr ''u1''
      then Snapshot (Some [(''company_id'', FStr ''t1'')])
      else if collection = ''clients'' \<and> doc_id = FStr ''t1''
      then Snapshot (Some [(''gcpProjectId'', FStr ''proj-42''), (''onboardingData'', FNull)])
      else Snapshot None)"

definition null_onboarding_world :: world where
  "null_onboarding_world =
     \<lparr> verify_id_token = example_verifier, document_get = null_onboarding_documents \<rparr>"

definition directory_outage_world :: world where
  "directory_outage_world =
     \<lparr> verify_id_token = example_verifier,
       document_get = (\<lambda>collection doc_id. FetchRaises ''deadline exceeded'') \<rparr>"

definition api_request_no_token :: request where
  "api_request_no_token = \<lparr> path = ''/api/bigquery/query'', headers = [] \<rparr>"

definition admin_user_ops :: UserInfo where
  "admin_user_ops = super_admin_user example_settings ''ops'' (Some ''ops@admin-domain.com'')"







definition api_request_expired_token :: request where
  "api_request_expired_token =
     \<lparr> path = ''/api/bigquery/query'', headers = [(''authorization'', ''Bearer tok-u1'')] \<rparr>"



section \<open>Auxiliary facts\<close>

lemmas resolution_defs =
  get_user_info_def contains_def getitem_def setitem_def super_admin_check_def
  email_domain_def directory_lookup_def record_read_def company_name_of_def
  UserInfo_init_def super_admin_user_def dict_get_def dict_get_default_def
  get_user_info_except_def module_init_def TTLCache_new_def Let_def

lemmas example_defs =
  example_settings_def example_world_def example_verifier_def example_documents_def
  tenant_user_u1_def directory_outage_world_def

lemmas dispatch_defs =
  dispatch_def dispatch_except_def is_public_path_def public_paths_def
  validate_firebase_token_def

lemma map_of_filter_other: "map_of (filter (\<lambda>l. fst l \<noteq> k) xs) k = None"
  by (induction xs) auto

lemma map_of_store: "map_of (filter (\<lambda>l. fst l \<noteq> k) xs @ [(k, y)]) k = Some y"
  by (simp add: map_add_def map_of_filter_other)

lemma setitem_ok:
  "1 \<le> maxsize c \<Longrightarrow> fst (setitem c t k v) = None"
  by (simp add: setitem_def Let_def)

lemma setitem_eq:
  "1 \<le> maxsize c \<Longrightarrow> setitem c t k v = (None, snd (setitem c t k v))"
  by (simp add: setitem_def Let_def)

lemma setitem_lookup:
  "1 \<le> maxsize c \<Longrightarrow>
     map_of (links (snd (setitem c t k v))) k = Some (v, t + ttl c)"
  by (simp add: setitem_def Let_def map_of_store del: map_of_append filter_filter)



lemma getitem_live:
  "map_of (links c) k = Some (v, e) \<Longrightarrow> t < e \<Longrightarrow> fst (getitem c t k) = Inr v"
  by (simp add: getitem_def Let_def)






lemma directory_lookup_cache:
  "user_cache (snd (directory_lookup w st uid' email')) = user_cache st"
  by (simp add: directory_lookup_def record_read_def Let_def
      split: fetch_result.splits option.splits sum.splits)

lemma last_py_split_no_sep: "c \<notin> set s \<Longrightarrow> py_split c s = [s]"
  by (induction s) auto

lemma py_split_nonempty: "py_split c s \<noteq> []"
  by (induction s) (auto split: list.splits)

lemma py_split_two: "c \<in> set s \<Longrightarrow> \<exists>w w' ws. py_split c s = w # w' # ws"
proof (induction s)
  case Nil
  then show ?case by simp
next
  case (Cons a s)
  show ?case
  proof (cases "a = c")
    case True
    then show ?thesis by (cases "py_split c s") (auto simp: py_split_nonempty)
  next
    case False
    with Cons obtain w w' ws where "py_split c s = w # w' # ws" by auto
    with False show ?thesis by simp
  qed
qed

lemma last_py_split_append:
  "c \<notin> set d \<Longrightarrow> last (py_split c (p @ c # d)) = d"
proof (induction p)
  case Nil
  then show ?case by (simp add: last_py_split_no_sep)
next
  case (Cons a p)
  then show ?case
    using py_split_two [of c "p @ c # d"] by auto
qed

lemma email_domain_after_last_at:
  "CHR ''@'' \<notin> set d \<Longrightarrow> email_domain (p @ CHR ''@'' # d) = d"
  by (simp add: email_domain_def last_py_split_append)


lemma get_user_info_miss_success:
  assumes size: "1 \<le> maxsize (user_cache st)"
    and miss: "\<not> contains (user_cache st) t1 (''user_'' @ uid')"
    and first: "get_user_info settings w t1 t2 st uid' email1 = (Inr u, st1)"
  shows "map_of (links (user_cache st1)) (''user_'' @ uid') = Some (u, t2 + ttl (user_cache st))"
    and "email u = email1"
    and "is_super_admin u = super_admin_check settings email1"
    and "directory_reads st1 = directory_reads st
         \<or> directory_reads st1 =
             directory_reads st @ [(''users'', FStr uid'), (''clients'', company_id u)]"
proof -
  let ?k = "''user_'' @ uid'"
  let ?r = "if super_admin_check settings email1
            then (Inr (super_admin_user settings uid' email1), st)
            else directory_lookup w st uid' email1"
  obtain x st' where r: "?r = (x, st')" by (cases ?r)
  have cache': "user_cache st' = user_cache st"
    using r directory_lookup_cache [of w st uid' email1]
    by (auto split: if_splits)
  from first miss r obtain u' where x: "x = Inr u'"
    by (cases x) (auto simp: get_user_info_def Let_def)
  have ok: "fst (setitem (user_cache st') t2 ?k u') = None"
    using size cache' by (simp add: setitem_ok)
  from first miss r x ok have u: "u' = u"
    and st1: "st1 = st'\<lparr>user_cache := snd (setitem (user_cache st') t2 ?k u')\<rparr>"
    by (auto simp: get_user_info_def Let_def split: prod.splits option.splits)
  show "map_of (links (user_cache st1)) ?k = Some (u, t2 + ttl (user_cache st))"
    using st1 u size cache' by (simp add: setitem_lookup)
  show "email u = email1"
    using r x u
    by (auto simp: super_admin_user_def UserInfo_init_def directory_lookup_def Let_def
        split: if_splits fetch_result.splits option.splits sum.splits)
  show "is_super_admin u = super_admin_check settings email1"
    using r x u
    by (auto simp: super_admin_user_def UserInfo_init_def directory_lookup_def Let_def
        split: if_splits fetch_result.splits option.splits sum.splits)
  show "directory_reads st1 = directory_reads st
         \<or> directory_reads st1 =
             directory_reads st @ [(''users'', FStr uid'), (''clients'', company_id u)]"
    using r x u st1
    by (auto simp: super_admin_user_def UserInfo_init_def directory_lookup_def Let_def
        record_read_def
        split: if_splits fetch_result.splits option.splits sum.splits)
qed

lemma get_user_info_hit:
  assumes "map_of (links (user_cache st)) (''user_'' @ uid') = Some (u, e)"
    and "t1 < e" and "t2 < e"
  shows "fst (get_user_info settings w t1 t2 st uid' email') = Inr u"
    and "directory_reads (snd (get_user_info settings w t1 t2 st uid' email'))
           = directory_reads st"
  using assms
  by (simp_all add: get_user_info_def contains_def getitem_def Let_def)

lemma example_first_resolution:
  "fst (get_user_info example_settings example_world 0 0 (module_init example_settings)
          ''u1'' (Some ''a@tenant.co'')) = Inr tenant_user_u1"
  by (simp add: resolution_defs example_defs)


section \<open>The gate of the middleware\<close>

text \<open>
  The public-path test is a prefix test and the list of public paths holds the root path,
  so every path that begins with a slash counts as public.
\<close>

lemma slash_prefixed_path_is_public: "prefix ''/'' p \<Longrightarrow> is_public_path p"
  by (simp add: is_public_path_def public_paths_def)

text \<open>
  On a path that the prefix test does not accept, a request whose \<open>Authorization\<close> header is
  absent, does not start with \<open>Bearer\<close> and a space, or carries nothing after it, is
  rejected with \<open>MissingTokenError\<close>; the module state is untouched.
\<close>

lemma gate_rejects_missing_token:
  assumes "\<not> is_public_path (path req)"
    and "map_of (headers req) ''authorization'' = None
         \<or> (\<exists>h. map_of (headers req) ''authorization'' = Some h
                \<and> (\<not> prefix ''Bearer '' h \<or> h = ''Bearer ''))"
  shows "dispatch settings w now t1 t2 st req = (Rejected MissingTokenError, st)"
  using assms by (auto simp: dispatch_def dispatch_except_def Let_def)

text \<open>A path the prefix test accepts is forwarded with no identity attached.\<close>

lemma public_path_bypasses_gate:
  "is_public_path (path req) \<Longrightarrow> dispatch settings w now t1 t2 st req = (Forwarded None, st)"
  by (simp add: dispatch_def)

text \<open>
  C1. The claim: every request whose path is not on the public-path allow-list and whose
  \<open>Authorization\<close> header is absent, not of the form \<open>Bearer token\<close>, or carries an empty
  token, is rejected with \<open>MissingToken\<close> before any handler runs, while requests on the
  allow-list pass with no identity attached. The middleware departs from it: the query
  route \<open>/api/bigquery/query\<close> is not one of the listed public paths, yet a request for it
  without any \<open>Authorization\<close> header is forwarded to the handler, with no identity
  attached and no rejection, because the list holds the root path and the test is
  \<open>startswith\<close>.
\<close>

theorem api_request_without_token_is_forwarded:
  "''/api/bigquery/query'' \<notin> set public_paths
   \<and> map_of (headers api_request_no_token) ''authorization'' = None
   \<and> dispatch example_settings example_world 1500 0 0 (module_init example_settings)
         api_request_no_token
       = (Forwarded None, module_init example_settings)"
  by (simp add: dispatch_defs api_request_no_token_def)

section \<open>Errors of identity resolution\<close>

text \<open>
  A failing read of the document store does not surface with a status of the 503 class: it
  is an \<open>AuthenticationError\<close> with status 401, the status of \<open>UserNotFoundError\<close>.
\<close>

theorem infrastructure_failure_counterexample:
  "fst (get_user_info example_settings directory_outage_world 0 0
          (module_init example_settings) ''u1'' (Some ''a@tenant.co''))
     = Inl (Api (AuthenticationError ''Failed to get user information: deadline exceeded''))
   \<and> status_code (AuthenticationError ''Failed to get user information: deadline exceeded'')
       \<noteq> 503
   \<and> status_code (AuthenticationError ''Failed to get user information: deadline exceeded'')
       = status_code UserNotFoundError"
  by (simp add: resolution_defs example_defs)

text \<open>
  C2, as the code has it. Every unexpected failure of the token verifier or of a read of
  the document store (the user record or the tenant record) surfaces as the generic
  \<open>AuthenticationError\<close>, whose detail quotes the failure, which the middleware passes on
  unchanged. Its status is 401, the same as for \<open>UserNotFoundError\<close> and
  \<open>InvalidTokenError\<close>; only its code, \<open>AUTH_ERROR\<close>, tells it apart from the codes of
  \<open>UserNotFoundError\<close>, \<open>CompanyNotFoundError\<close> and \<open>InvalidTokenError\<close>.
\<close>

theorem infrastructure_failure_is_generic_auth_error:
  "(verify_id_token w token = RaisesOther msg \<longrightarrow>
      validate_firebase_token w token
        = Inl (AuthenticationError (''Token validation failed: '' @ msg)))
   \<and> (\<not> contains (user_cache st) t1 (''user_'' @ uid') \<and> \<not> super_admin_check settings email'
        \<and> document_get w ''users'' (FStr uid') = FetchRaises msg \<longrightarrow>
      fst (get_user_info settings w t1 t2 st uid' email')
        = Inl (Api (AuthenticationError (''Failed to get user information: '' @ msg))))
   \<and> (\<not> contains (user_cache st) t1 (''user_'' @ uid') \<and> \<not> super_admin_check settings email'
        \<and> document_get w ''users'' (FStr uid') = Snapshot (Some user_data)
        \<and> truthy (dict_get user_data ''company_id'')
        \<and> document_get w ''clients'' (dict_get user_data ''company_id'') = FetchRaises msg \<longrightarrow>
      fst (get_user_info settings w t1 t2 st uid' email')
        = Inl (Api (AuthenticationError (''Failed to get user information: '' @ msg))))
   \<and> dispatch_except (Api (AuthenticationError d)) = AuthenticationError d
   \<and> status_code (AuthenticationError d) = 401
   \<and> status_code (AuthenticationError d) = status_code UserNotFoundError
   \<and> status_code (AuthenticationError d) = status_code InvalidTokenError
   \<and> code (AuthenticationError d) = ''AUTH_ERROR''
   \<and> code (AuthenticationError d) \<noteq> code UserNotFoundError
   \<and> code (AuthenticationError d) \<noteq> code CompanyNotFoundError
   \<and> code (AuthenticationError d) \<noteq> code InvalidTokenError"
  by (simp add: validate_firebase_token_def get_user_info_def directory_lookup_def
      get_user_info_except_def dispatch_except_def Let_def)

text \<open>The verifier is unreachable; the document store times out.\<close>

theorem infrastructure_failure_witness:
  "validate_firebase_token outage_world ''tok-u1''
     = Inl (AuthenticationError ''Token validation failed: connection reset'')
   \<and> fst (get_user_info example_settings directory_outage_world 0 0
            (module_init example_settings) ''u1'' (Some ''a@tenant.co''))
       = Inl (Api (AuthenticationError ''Failed to get user information: deadline exceeded''))
   \<and> code (AuthenticationError ''Failed to get user information: deadline exceeded'')
       = ''AUTH_ERROR''"
  using infrastructure_failure_is_generic_auth_error
    [of outage_world "''tok-u1''" "''connection reset''"]
    infrastructure_failure_is_generic_auth_error
    [of directory_outage_world _ "''deadline exceeded''" "module_init example_settings" 0
        "''u1''" example_settings "Some ''a@tenant.co''" 0]
  by (simp add: example_defs outage_world_def module_init_def TTLCache_new_def contains_def
      super_admin_check_def email_domain_def)

section \<open>Super-admin resolution\<close>

text \<open>
  For an email that ends in an at-sign followed by a configured super-admin domain (the
  domain being what follows the last at-sign), a resolution that misses the cache reads no
  document and yields the super-admin identity: the sentinel tenant \<open>super-admin\<close>, the
  permissions read, write and admin, a verified email, and the configured admin projects,
  or the default project when none is configured.
\<close>

lemma super_admin_resolution:
  assumes "1 \<le> maxsize (user_cache st)"
    and "\<not> contains (user_cache st) t1 (''user_'' @ uid')"
    and "email' = Some (p @ CHR ''@'' # dmn)" and "CHR ''@'' \<notin> set dmn"
    and "dmn \<in> set (super_admin_domains settings)"
  shows "fst (get_user_info settings w t1 t2 st uid' email')
           = Inr (super_admin_user settings uid' email')"
    and "directory_reads (snd (get_user_info settings w t1 t2 st uid' email'))
           = directory_reads st"
    and "is_super_admin (super_admin_user settings uid' email')"
    and "company_id (super_admin_user settings uid' email') = FStr ''super-admin''"
    and "permissions (super_admin_user settings uid' email')
           = FList [FStr ''read'', FStr ''write'', FStr ''admin'']"
    and "email_verified (super_admin_user settings uid' email') = FBool True"
    and "accessible_projects (super_admin_user settings uid' email')
           = (if Settings.accessible_projects settings \<noteq> []
              then map FStr (Settings.accessible_projects settings)
              else [FStr (Settings.gcp_project_id settings)])"
proof -
  have admin: "super_admin_check settings email'"
    using assms(3-5) by (simp add: super_admin_check_def email_domain_after_last_at)
  obtain c' where ok: "setitem (user_cache st) t2 (''user_'' @ uid')
                         (super_admin_user settings uid' email') = (None, c')"
    using setitem_eq [OF assms(1)] by blast
  show "fst (get_user_info settings w t1 t2 st uid' email')
           = Inr (super_admin_user settings uid' email')"
    using admin assms(2) ok
    by (simp add: get_user_info_def Let_def)
  show "directory_reads (snd (get_user_info settings w t1 t2 st uid' email'))
           = directory_reads st"
    using admin assms(2) ok
    by (simp add: get_user_info_def Let_def)
qed (simp_all add: super_admin_user_def UserInfo_init_def)

text \<open>
  C3. The claim: for every email whose domain is a configured super-admin domain,
  resolution reads no tenant record and yields the super-admin identity, and an email
  without an at-sign is never a super admin. The last part fails on the code when the
  configured list holds the empty string: the domain of an email without an at-sign is
  taken to be the empty string, which is then found in the list. Here the email \<open>root\<close>
  has no at-sign and is resolved as a super admin, without any read of the document store.
\<close>

theorem email_without_at_sign_becomes_super_admin:
  "CHR ''@'' \<notin> set ''root''
   \<and> fst (get_user_info blank_domain_settings example_world 0 0
            (module_init blank_domain_settings) ''u9'' (Some ''root''))
       = Inr (super_admin_user blank_domain_settings ''u9'' (Some ''root''))
   \<and> is_super_admin (super_admin_user blank_domain_settings ''u9'' (Some ''root''))
   \<and> directory_reads (snd (get_user_info blank_domain_settings example_world 0 0
            (module_init blank_domain_settings) ''u9'' (Some ''root''))) = []"
  by (simp add: resolution_defs example_defs blank_domain_settings_def)

section \<open>Tenant resolution\<close>

text \<open>
  C4. For a subject that is not a super admin and misses the cache, resolution fails in
  this order: with \<open>UserNotFoundError\<close> when the user record is absent; otherwise with an
  \<open>AuthorizationError\<close> (status 403, not an authentication error) when the user record
  names no company; otherwise with \<open>CompanyNotFoundError\<close> when the tenant record is
  absent; otherwise with an \<open>AuthorizationError\<close> when the tenant record binds no project.
  In each case no identity is returned and the cache is left as it was: the state changes
  only by the reads issued, one in the first two cases and two in the last two.
\<close>

theorem directory_failure_ladder:
  assumes "\<not> contains (user_cache st) tc (''user_'' @ uid')"
    and "\<not> super_admin_check settings email'"
  shows
  "(document_get w ''users'' (FStr uid') = Snapshot None \<longrightarrow>
      get_user_info settings w tc ta st uid' email'
        = (Inl (Api UserNotFoundError), record_read st ''users'' (FStr uid')))
   \<and> (document_get w ''users'' (FStr uid') = Snapshot (Some user_data)
        \<and> \<not> truthy (dict_get user_data ''company_id'') \<longrightarrow>
      get_user_info settings w tc ta st uid' email'
        = (Inl (Api (AuthorizationError ''User not associated with any company'')),
           record_read st ''users'' (FStr uid')))
   \<and> (document_get w ''users'' (FStr uid') = Snapshot (Some user_data)
        \<and> truthy (dict_get user_data ''company_id'')
        \<and> document_get w ''clients'' (dict_get user_data ''company_id'') = Snapshot None \<longrightarrow>
      get_user_info settings w tc ta st uid' email'
        = (Inl (Api CompanyNotFoundError),
           record_read (record_read st ''users'' (FStr uid'))
             ''clients'' (dict_get user_data ''company_id'')))
   \<and> (document_get w ''users'' (FStr uid') = Snapshot (Some user_data)
        \<and> truthy (dict_get user_data ''company_id'')
        \<and> document_get w ''clients'' (dict_get user_data ''company_id'')
            = Snapshot (Some client_data)
        \<and> \<not> truthy (dict_get client_data ''gcpProjectId'') \<longrightarrow>
      get_user_info settings w tc ta st uid' email'
        = (Inl (Api (AuthorizationError ''Company does not have an associated GCP project'')),
           record_read (record_read st ''users'' (FStr uid'))
             ''clients'' (dict_get user_data ''company_id'')))
   \<and> user_cache (record_read (record_read st ''users'' (FStr uid')) ''clients'' cid)
       = user_cache st
   \<and> is_AuthorizationError (AuthorizationError ''User not associated with any company'')
   \<and> \<not> is_AuthenticationError (AuthorizationError ''User not associated with any company'')
   \<and> status_code (AuthorizationError ''User not associated with any company'') = 403"
  using assms
  by (simp add: get_user_info_def directory_lookup_def get_user_info_except_def
      record_read_def Let_def)

text \<open>Subjects \<open>u2\<close> to \<open>u5\<close> fail on the four rungs in turn.\<close>

theorem directory_failure_ladder_witness:
  "get_user_info example_settings ladder_world 0 0 (module_init example_settings)
       ''u2'' (Some ''b@tenant.co'')
     = (Inl (Api UserNotFoundError),
        record_read (module_init example_settings) ''users'' (FStr ''u2''))
   \<and> get_user_info example_settings ladder_world 0 0 (module_init example_settings)
       ''u3'' (Some ''b@tenant.co'')
     = (Inl (Api (AuthorizationError ''User not associated with any company'')),
        record_read (module_init example_settings) ''users'' (FStr ''u3''))
   \<and> get_user_info example_settings ladder_world 0 0 (module_init example_settings)
       ''u4'' (Some ''b@tenant.co'')
     = (Inl (Api CompanyNotFoundError),
        record_read (record_read (module_init example_settings) ''users'' (FStr ''u4''))
          ''clients'' (FStr ''t4''))
   \<and> get_user_info example_settings ladder_world 0 0 (module_init example_settings)
       ''u5'' (Some ''b@tenant.co'')
     = (Inl (Api (AuthorizationError ''Company does not have an associated GCP project'')),
        record_read (record_read (module_init example_settings) ''users'' (FStr ''u5''))
          ''clients'' (FStr ''t5''))"
proof -
  have miss: "\<not> contains (user_cache (module_init example_settings)) 0 (''user_'' @ u)" for u
    by (simp add: module_init_def TTLCache_new_def contains_def)
  have plain: "\<not> super_admin_check example_settings (Some ''b@tenant.co'')"
    by (simp add: super_admin_check_def email_domain_def example_settings_def)
  show ?thesis
    using directory_failure_ladder [OF miss plain,
        where w = ladder_world and uid' = "''u2''" and ta = 0]
      directory_failure_ladder [OF miss plain,
        where w = ladder_world and uid' = "''u3''" and ta = 0 and user_data = "[]"]
      directory_failure_ladder [OF miss plain,
        where w = ladder_world and uid' = "''u4''" and ta = 0
          and user_data = "[(''company_id'', FStr ''t4'')]"]
      directory_failure_ladder [OF miss plain,
        where w = ladder_world and uid' = "''u5''" and ta = 0
          and user_data = "[(''company_id'', FStr ''t5'')]"
          and client_data = "[(''status'', FStr ''active'')]"]
    by (simp add: ladder_world_def ladder_documents_def dict_get_def)
qed

text \<open>
  When the user record names a company, the tenant record binds a project and the display
  name can be read, a resolution that misses the cache returns an identity whose accessible
  projects are exactly the tenant's project, that is no super admin, and whose permissions
  are those of the user record, or \<open>read\<close> when the record has none.
\<close>

lemma tenant_resolution:
  assumes "1 \<le> maxsize (user_cache st)"
    and "\<not> contains (user_cache st) t1 (''user_'' @ uid')"
    and "\<not> super_admin_check settings email'"
    and "document_get w ''users'' (FStr uid') = Snapshot (Some user_data)"
    and "truthy (dict_get user_data ''company_id'')"
    and "document_get w ''clients'' (dict_get user_data ''company_id'')
           = Snapshot (Some client_data)"
    and "truthy (dict_get client_data ''gcpProjectId'')"
    and "company_name_of client_data = Inr name"
  shows "\<exists>u. fst (get_user_info settings w t1 t2 st uid' email') = Inr u
           \<and> accessible_projects u = [dict_get client_data ''gcpProjectId'']
           \<and> company_id u = dict_get user_data ''company_id''
           \<and> \<not> is_super_admin u
           \<and> permissions u =
               (if truthy (dict_get_default user_data ''permissions'' (FList [FStr ''read'']))
                then dict_get_default user_data ''permissions'' (FList [FStr ''read''])
                else FList [FStr ''read''])"
proof -
  let ?u = "UserInfo_init uid' email'
              (dict_get_default user_data ''email_verified'' (FBool False))
              (dict_get user_data ''company_id'') (dict_get client_data ''gcpProjectId'')
              name False (Some [dict_get client_data ''gcpProjectId''])
              (Some (dict_get_default user_data ''permissions'' (FList [FStr ''read''])))
              (Some [(''status'', dict_get client_data ''status''),
                     (''created_at'', dict_get client_data ''createdAt''),
                     (''bigquery_dataset_id'', dict_get client_data ''bigQueryDatasetId'')])"
  obtain c' where ok: "setitem (user_cache st) t2 (''user_'' @ uid') ?u = (None, c')"
    using setitem_eq [OF assms(1)] by blast
  have "fst (get_user_info settings w t1 t2 st uid' email') = Inr ?u"
    using assms(2-8) ok
    by (simp add: get_user_info_def directory_lookup_def record_read_def Let_def)
  then show ?thesis by (simp add: UserInfo_init_def)
qed

text \<open>
  C5. The claim: for every subject that is not a super admin, whose user record exists and
  names a tenant, and whose tenant record binds a resource scope, resolution returns an
  identity whose accessible scopes are exactly that scope and whose permissions come from
  the user record, defaulting to \<open>read\<close>. The code departs from it when the tenant record
  stores \<open>null\<close> under \<open>onboardingData\<close>: the default of \<open>.get\<close> covers only a missing key,
  the display name is then read from \<open>None\<close>, and resolution fails with an
  \<open>AuthenticationError\<close> although the user, the tenant link and the bound project are all
  present.
\<close>

theorem null_onboarding_data_fails_resolution:
  "document_get null_onboarding_world ''users'' (FStr ''u1'')
     = Snapshot (Some [(''company_id'', FStr ''t1'')])
   \<and> document_get null_onboarding_world ''clients'' (FStr ''t1'')
     = Snapshot (Some [(''gcpProjectId'', FStr ''proj-42''), (''onboardingData'', FNull)])
   \<and> \<not> super_admin_check example_settings (Some ''a@tenant.co'')
   \<and> (\<exists>d. fst (get_user_info example_settings null_onboarding_world 0 0
                  (module_init example_settings) ''u1'' (Some ''a@tenant.co''))
             = Inl (Api (AuthenticationError (''Failed to get user information: '' @ d))))"
  by (simp add: resolution_defs example_defs null_onboarding_world_def
      null_onboarding_documents_def)

text \<open>
  The example of the specification: subject \<open>u1\<close> of tenant \<open>t1\<close>, bound to \<open>proj-42\<close>, is
  resolved with that tenant, that single project and the permission \<open>read\<close>, and is denied
  \<open>proj-99\<close>.
\<close>

lemma spec_example_resolution:
  "fst (get_user_info example_settings example_world 0 0 (module_init example_settings)
          ''u1'' (Some ''a@tenant.co'')) = Inr tenant_user_u1
   \<and> company_id tenant_user_u1 = FStr ''t1''
   \<and> accessible_projects tenant_user_u1 = [FStr ''proj-42'']
   \<and> \<not> is_super_admin tenant_user_u1
   \<and> permissions tenant_user_u1 = FList [FStr ''read'']
   \<and> require_project_access ''proj-99'' (Some tenant_user_u1)
       = Inl (ProjectAccessDeniedError ''proj-99'')"
  by (simp add: resolution_defs example_defs require_project_access_def
      get_current_user_def can_access_project_def)

section \<open>The identity cache\<close>



text \<open>The first resolution of \<open>u1\<close> from the initial state, and the initial cache.\<close>

lemma example_first_resolution_pair:
  "get_user_info example_settings example_world 0 0 (module_init example_settings)
      ''u1'' (Some ''a@tenant.co'')
   = (Inr tenant_user_u1,
      snd (get_user_info example_settings example_world 0 0 (module_init example_settings)
             ''u1'' (Some ''a@tenant.co'')))"
  by (rule prod_eqI) (simp_all add: example_first_resolution)

lemma module_init_empty:
  "1 \<le> maxsize (user_cache (module_init settings))"
  "\<not> contains (user_cache (module_init settings)) t k"
  "ttl (user_cache (module_init settings)) = 300"
  by (simp_all add: module_init_def TTLCache_new_def contains_def)






















section \<open>The scope guard\<close>

text \<open>
  C7. The scope guard denies every non-super-admin identity for every scope that is not
  among its accessible scopes, failing with the project-access-denied error for that very
  scope, and lets every super-admin identity through for every scope, whatever its
  accessible scopes are.
\<close>

theorem scope_guard_denies_and_bypasses:
  "(\<not> is_super_admin u \<and> FStr s \<notin> set (accessible_projects u)
      \<longrightarrow> require_project_access s (Some u) = Inl (ProjectAccessDeniedError s))
   \<and> (is_super_admin u \<longrightarrow> require_project_access s (Some u) = Inr u)"
  by (simp add: require_project_access_def get_current_user_def can_access_project_def)

text \<open>A tenant user asking for another project; a super admin asking for an unlisted one.\<close>

theorem scope_guard_witness:
  "\<not> is_super_admin tenant_user_u1
   \<and> FStr ''proj-99'' \<notin> set (accessible_projects tenant_user_u1)
   \<and> require_project_access ''proj-99'' (Some tenant_user_u1)
       = Inl (ProjectAccessDeniedError ''proj-99'')
   \<and> is_super_admin admin_user_ops
   \<and> FStr ''proj-z'' \<notin> set (accessible_projects admin_user_ops)
   \<and> require_project_access ''proj-z'' (Some admin_user_ops) = Inr admin_user_ops"
  using scope_guard_denies_and_bypasses [of tenant_user_u1 "''proj-99''"]
    scope_guard_denies_and_bypasses [of admin_user_ops "''proj-z''"]
  by (simp add: tenant_user_u1_def admin_user_ops_def super_admin_user_def UserInfo_init_def
      example_settings_def)

section \<open>Token expiry\<close>

text \<open>
  Where the middleware has a token verified (the path is not accepted by the public-path
  test and the header carries a non-empty bearer token) and the verifier returns claims
  whose expiry is at or before the current time, the request is rejected with
  \<open>InvalidTokenError\<close>; the module state is untouched.
\<close>

lemma expiry_check_rejects_verified_token:
  assumes "\<not> is_public_path (path req)"
    and "map_of (headers req) ''authorization'' = Some (''Bearer '' @ token)"
    and "token \<noteq> []"
    and "verify_id_token w token = Decoded d"
    and "token_exp d = Some e"
    and "e \<le> now"
  shows "dispatch settings w now tc ta st req = (Rejected InvalidTokenError, st)"
  using assms
  by (simp add: dispatch_def dispatch_except_def validate_firebase_token_def Let_def)

text \<open>
  C8. The claim: every token whose verified claims carry an expiry at or before the current
  time is rejected with \<open>InvalidToken\<close>, even when the verifier reports it valid. The
  middleware departs from it on every routable path: the public-path test accepts each
  path that begins with a slash, so the expiry check is never reached. Here the token
  \<open>tok-u1\<close>, which the verifier accepts with expiry 2000, is presented at second 2000 on
  the query route \<open>/api/bigquery/query\<close>, and the request is forwarded with no identity
  attached instead of being rejected.
\<close>

theorem expired_token_on_api_route_is_forwarded:
  "''/api/bigquery/query'' \<notin> set public_paths
   \<and> map_of (headers api_request_expired_token) ''authorization'' = Some ''Bearer tok-u1''
   \<and> verify_id_token example_world ''tok-u1''
       = Decoded \<lparr> token_uid = ''u1'', token_email = Some ''a@tenant.co'',
                    token_email_verified = Some True, token_exp = Some 2000,
                    token_iat = Some 1000 \<rparr>
   \<and> dispatch example_settings example_world 2000 0 0 (module_init example_settings)
         api_request_expired_token
       = (Forwarded None, module_init example_settings)"
  by (simp add: dispatch_defs api_request_expired_token_def example_world_def
      example_verifier_def)

section \<open>The parameters and the key of the cache\<close>




text \<open>
  C10. Resolution is keyed by the uid alone: once a resolution for a uid with email
  \<open>email_a\<close> has missed the cache and succeeded, any resolution for the same uid within the
  time-to-live returns that identity, built from \<open>email_a\<close> and super admin exactly if
  \<open>email_a\<close> was, for every email \<open>email_b\<close> passed to it: the email argument, and the
  super-admin check on it, have no influence on a cache hit.
\<close>

theorem cache_hit_ignores_email:
  assumes "1 \<le> maxsize (user_cache st)"
    and "\<not> contains (user_cache st) tc (''user_'' @ uid')"
    and "get_user_info settings w tc ta st uid' email_a = (Inr u, st1)"
    and "tc' < ta + ttl (user_cache st)"
    and "ta' < ta + ttl (user_cache st)"
  shows "fst (get_user_info settings w' tc' ta' st1 uid' email_b) = Inr u
   \<and> email u = email_a
   \<and> is_super_admin u = super_admin_check settings email_a"
proof -
  have stored: "map_of (links (user_cache st1)) (''user_'' @ uid')
                  = Some (u, ta + ttl (user_cache st))"
    using assms(1-3) by (rule get_user_info_miss_success(1))
  have "email u = email_a"
    using assms(1-3) by (rule get_user_info_miss_success(2))
  moreover have "is_super_admin u = super_admin_check settings email_a"
    using assms(1-3) by (rule get_user_info_miss_success(3))
  ultimately show ?thesis
    using get_user_info_hit(1) [OF stored assms(4) assms(5)] by simp
qed

text \<open>A uid cached as a tenant user presents a super-admin email and stays a tenant user.\<close>

theorem cache_hit_ignores_email_witness:
  "super_admin_check example_settings (Some ''ops@admin-domain.com'')
   \<and> fst (get_user_info example_settings example_world 120 120
          (snd (get_user_info example_settings example_world 0 0
                  (module_init example_settings) ''u1'' (Some ''a@tenant.co'')))
          ''u1'' (Some ''ops@admin-domain.com''))
     = Inr tenant_user_u1
   \<and> email tenant_user_u1 = Some ''a@tenant.co''
   \<and> \<not> is_super_admin tenant_user_u1"
proof -
  have w1: "(120::real) < 0 + ttl (user_cache (module_init example_settings))"
    by (simp add: module_init_empty)
  have admin: "super_admin_check example_settings (Some ''ops@admin-domain.com'')"
    by (simp add: super_admin_check_def email_domain_def example_settings_def)
  show ?thesis
    using cache_hit_ignores_email [OF module_init_empty(1) module_init_empty(2)
        example_first_resolution_pair w1 w1, where w' = example_world
          and email_b = "Some ''ops@admin-domain.com''"] admin
    by (simp add: tenant_user_u1_def)
qed

end
